theory Spec2Isabelle
  imports
    Main
    "HOL-Library.Sublist"
    "HOL-Library.Word"
    "HOL-Library.List_Lexorder"
begin

section \<open>The sports-leagues store\<close>

text \<open>
  A shallow embedding of the Pinia store \<open>useSportsLeaguesStore\<close>: its state, the two
  computed views \<open>availableSports\<close> and \<open>filteredLeagues\<close>, and the two asynchronous
  actions \<open>fetchLeagues\<close> and \<open>fetchBadge\<close>.

  Conventions of the model:
  \<^item> a JavaScript string is a list of 16-bit code units; \<open>includes\<close> and the default sort
    order work on code units; \<open>js\<close> turns an ASCII literal of the source into such a string;
  \<^item> \<open>trim\<close> strips exactly the \<open>WhiteSpace\<close> and \<open>LineTerminator\<close> code points of ECMAScript;
  \<^item> the case mapping behind \<open>String.prototype.toLowerCase\<close> is a table of the Unicode
    standard and not part of the repository: it is a parameter \<open>toLowerCase\<close> of the model,
    and every general statement holds for every such function. Concrete examples use
    \<open>toLowerCase_ascii\<close> on ASCII strings, where the built-in does the same;
  \<^item> a league in the store has the fields that the type \<open>League\<close> declares, each a string or
    \<open>null\<close>/\<open>undefined\<close> (\<open>None\<close>); \<open>json_League\<close> is a league object as the unchecked cast of the
    HTTP response may deliver it, with any value in a field;
  \<^item> a thrown value or a rejected promise is \<open>Inl\<close> of a \<open>js_thrown\<close>, a normal completion
    is \<open>Inr\<close>;
  \<^item> the object behind \<open>badgeCache\<close> is the map of its own properties; a read
    \<open>badgeCache.value[leagueId]\<close> goes through \<open>get_property\<close>, which falls back to the
    members that every object inherits from \<open>Object.prototype\<close>;
  \<^item> the outcome of the awaited HTTP call is an input of the action; the calls made on
    the collaborators (HTTP client, console, toast) are logged in the state, and the
    console and the toast service themselves do not throw.
\<close>

subsection \<open>JavaScript values\<close>

type_synonym code_unit = "16 word"

type_synonym js_string = "code_unit list"

definition js :: "string \<Rightarrow> js_string" where
  "js s = map of_char s"

datatype js_value =
    JUndefined
  | JNull
  | JString js_string
  | JNumber int           \<comment> \<open>a number; integral ones suffice, no operation here tells others apart\<close>
  | JBoolean bool
  | Inherited js_string  \<comment> \<open>the member of \<open>Object.prototype\<close> of that name\<close>

datatype js_thrown =
    Error_object string js_string  \<comment> \<open>an instance of \<open>Error\<close>: constructor name and \<open>message\<close>\<close>
  | Thrown_value js_value          \<comment> \<open>any thrown value that is not an instance of \<open>Error\<close>\<close>

datatype 'a promise_outcome = Resolves 'a | Rejects js_thrown

text \<open>\<open>new Error(message)\<close>.\<close>

definition new_Error :: "js_string \<Rightarrow> js_thrown" where
  "new_Error msg = Error_object ''Error'' msg"

text \<open>\<open>err instanceof Error ? err.message : fallback\<close>.\<close>

fun message_or :: "js_thrown \<Rightarrow> js_string \<Rightarrow> js_string" where
  "message_or (Error_object n msg) fallback = msg"
| "message_or (Thrown_value v) fallback = fallback"

text \<open>Truthiness of a value of type \<open>string | null | undefined\<close>, of
  \<open>boolean | undefined\<close>, and of an arbitrary value. The members of \<open>Object.prototype\<close> are
  functions, or the prototype object itself for \<open>__proto__\<close>: all truthy.\<close>

fun truthy :: "js_string option \<Rightarrow> bool" where
  "truthy None = False"
| "truthy (Some s) = (s \<noteq> [])"

fun truthy_bool :: "bool option \<Rightarrow> bool" where
  "truthy_bool None = False"
| "truthy_bool (Some b) = b"

fun truthy_value :: "js_value \<Rightarrow> bool" where
  "truthy_value JUndefined = False"
| "truthy_value JNull = False"
| "truthy_value (JString s) = (s \<noteq> [])"
| "truthy_value (JNumber n) = (n \<noteq> 0)"
| "truthy_value (JBoolean b) = b"
| "truthy_value (Inherited k) = True"

text \<open>A field of declared type \<open>string\<close> that may be \<open>null\<close>, as a run-time value.\<close>

fun value_of :: "js_string option \<Rightarrow> js_value" where
  "value_of None = JNull"
| "value_of (Some s) = JString s"

subsection \<open>String built-ins\<close>

text \<open>\<open>WhiteSpace\<close> (TAB, VT, FF, ZWNBSP and the category \<open>Zs\<close>) and \<open>LineTerminator\<close> (LF, CR,
  LS, PS); each is a single code unit.\<close>

definition is_white_space :: "code_unit \<Rightarrow> bool" where
  "is_white_space c \<longleftrightarrow>
     c \<in> set [0x0009, 0x000B, 0x000C, 0xFEFF,
               0x0020, 0x00A0, 0x1680, 0x2000, 0x2001, 0x2002, 0x2003, 0x2004, 0x2005,
               0x2006, 0x2007, 0x2008, 0x2009, 0x200A, 0x202F, 0x205F, 0x3000,
               0x000A, 0x000D, 0x2028, 0x2029]"

definition trim :: "js_string \<Rightarrow> js_string" where
  "trim s = rev (dropWhile is_white_space (rev (dropWhile is_white_space s)))"

text \<open>The case mapping on strings of Basic Latin code units: \<open>A\<close> to \<open>Z\<close> become \<open>a\<close> to \<open>z\<close>.
  Only the concrete examples use it.\<close>

definition toLowerCase_ascii :: "js_string \<Rightarrow> js_string" where
  "toLowerCase_ascii s = map (\<lambda>c. if 0x41 \<le> c \<and> c \<le> 0x5A then c + 0x20 else c) s"

text \<open>\<open>s.includes(t)\<close>: \<open>t\<close> occurs in \<open>s\<close> as a contiguous substring.\<close>

fun str_includes :: "js_string \<Rightarrow> js_string \<Rightarrow> bool" where
  "str_includes [] t = (t = [])"
| "str_includes (c # cs) t = (prefix t (c # cs) \<or> str_includes cs t)"

datatype chain = Plain | Optional

text \<open>
  A call of a \<open>String.prototype\<close> method on an arbitrary value; \<open>m\<close> is the method applied to
  the string, with the rest of the chain. With \<open>?.\<close> the whole chain yields \<open>undefined\<close> on
  \<open>null\<close> and \<open>undefined\<close>, with a plain \<open>.\<close> it throws there. On any other value that is not
  a string the method is \<open>undefined\<close>, and calling it throws a \<open>TypeError\<close> under both.
\<close>

definition not_a_function :: js_thrown where
  "not_a_function = Error_object ''TypeError'' (js ''is not a function'')"

definition cannot_read :: js_thrown where
  "cannot_read = Error_object ''TypeError'' (js ''Cannot read properties of undefined'')"

fun string_method :: "chain \<Rightarrow> js_value \<Rightarrow> (js_string \<Rightarrow> 'b) \<Rightarrow> js_thrown + 'b option" where
  "string_method c (JString s) m = Inr (Some (m s))"
| "string_method Optional JUndefined m = Inr None"
| "string_method Optional JNull m = Inr None"
| "string_method Plain JUndefined m = Inl cannot_read"
| "string_method Plain JNull m = Inl cannot_read"
| "string_method c (JNumber n) m = Inl not_a_function"
| "string_method c (JBoolean b) m = Inl not_a_function"
| "string_method c (Inherited k) m = Inl not_a_function"

text \<open>A property access on an object that may be \<open>null\<close> or \<open>undefined\<close>.\<close>

fun access :: "chain \<Rightarrow> 'a option \<Rightarrow> ('a \<Rightarrow> 'b) \<Rightarrow> js_thrown + 'b option" where
  "access c (Some x) m = Inr (Some (m x))"
| "access Optional None m = Inr None"
| "access Plain None m = Inl cannot_read"

subsection \<open>Array, Set and Object built-ins\<close>

text \<open>\<open>Array.prototype.filter\<close> and \<open>forEach\<close> with a callback that may throw: the first
  exception ends the traversal.\<close>

fun array_filter :: "('a \<Rightarrow> js_thrown + bool) \<Rightarrow> 'a list \<Rightarrow> js_thrown + 'a list" where
  "array_filter cb [] = Inr []"
| "array_filter cb (x # xs) =
     (case cb x of
        Inl e \<Rightarrow> Inl e
      | Inr keep \<Rightarrow>
          (case array_filter cb xs of
             Inl e \<Rightarrow> Inl e
           | Inr ys \<Rightarrow> Inr (if keep then x # ys else ys)))"

fun array_forEach :: "('a \<Rightarrow> 's \<Rightarrow> js_thrown + 's) \<Rightarrow> 'a list \<Rightarrow> 's \<Rightarrow> js_thrown + 's" where
  "array_forEach cb [] s = Inr s"
| "array_forEach cb (x # xs) s =
     (case cb x s of
        Inl e \<Rightarrow> Inl e
      | Inr s' \<Rightarrow> array_forEach cb xs s')"

text \<open>A \<open>Set\<close> keeps its elements in insertion order; \<open>add\<close> ignores an element that is
  already there. \<open>Array.from\<close> reads the elements in that order, and \<open>sort()\<close> without a
  comparator orders strings by code units.\<close>

definition set_add :: "'a \<Rightarrow> 'a list \<Rightarrow> 'a list" where
  "set_add x xs = (if x \<in> set xs then xs else xs @ [x])"

definition array_sort :: "js_string list \<Rightarrow> js_string list" where
  "array_sort xs = sort xs"

text \<open>The properties of \<open>Object.prototype\<close>, which a plain object inherits.\<close>

definition object_prototype_members :: "js_string list" where
  "object_prototype_members =
     map js [''constructor'', ''__proto__'', ''hasOwnProperty'', ''isPrototypeOf'',
             ''propertyIsEnumerable'', ''toLocaleString'', ''toString'', ''valueOf'',
             ''__defineGetter__'', ''__defineSetter__'', ''__lookupGetter__'',
             ''__lookupSetter__'']"

text \<open>\<open>obj[key]\<close> on a plain object with string values: an own property wins, then the
  prototype is asked.\<close>

definition get_property :: "(js_string \<rightharpoonup> js_string) \<Rightarrow> js_string \<Rightarrow> js_value" where
  "get_property obj key =
     (case obj key of
        Some v \<Rightarrow> JString v
      | None \<Rightarrow> if key \<in> set object_prototype_members then Inherited key else JUndefined)"

subsection \<open>Data model\<close>

record League =
  idLeague :: js_string
  strLeague :: "js_string option"
  strSport :: "js_string option"
  strLeagueAlternate :: "js_string option"

record json_League =
  json_idLeague :: js_value
  json_strLeague :: js_value
  json_strSport :: js_value
  json_strLeagueAlternate :: js_value

definition as_json :: "League \<Rightarrow> json_League" where
  "as_json league =
     \<lparr>json_idLeague = JString (idLeague league),
      json_strLeague = value_of (strLeague league),
      json_strSport = value_of (strSport league),
      json_strLeagueAlternate = value_of (strLeagueAlternate league)\<rparr>"

record LeaguesResponse =
  response_leagues :: "League list option"

record Season =
  strSeason :: js_string
  strBadge :: "js_string option"

record SeasonsWithBadgeResponse =
  seasons :: "Season list option"

record toast =
  title :: js_string
  description :: js_string
  color :: js_string

type_synonym request = "js_string \<times> (js_string \<times> js_value) list"

record store =
  leagues :: "League list"
  loading :: bool
  error :: "js_string option"
  searchTerm :: js_string
  selectedSport :: "js_string option"
  badgeCache :: "js_string \<rightharpoonup> js_string"
  requests :: "request list"                 \<comment> \<open>calls of \<open>api.fetchFromAPI\<close>, oldest first\<close>
  console :: "(js_string \<times> js_thrown) list"  \<comment> \<open>calls of \<open>console.error\<close>\<close>
  toasts :: "toast list"                     \<comment> \<open>calls of \<open>toast.add\<close>\<close>

subsection \<open>Computed: availableSports\<close>

definition availableSports :: "store \<Rightarrow> js_thrown + js_string list" where
  "availableSports st =
     (case array_forEach
             (\<lambda>league sports.
                 if truthy (strSport league)
                 then (case strSport league of
                         Some s \<Rightarrow> Inr (set_add s sports)
                       | None \<Rightarrow> Inr sports)
                 else Inr sports)
             (leagues st) [] of
        Inl e \<Rightarrow> Inl e
      | Inr sports \<Rightarrow> Inr (array_sort sports))"

subsection \<open>Computed: filteredLeagues\<close>

text \<open>The callback of the search filter, on a league object with any values in its fields:
  \<open>league.strLeague?.toLowerCase().includes(term) ||
   league.strLeagueAlternate?.toLowerCase().includes(term)\<close>.\<close>

definition search_callback ::
    "(js_string \<Rightarrow> js_string) \<Rightarrow> js_string \<Rightarrow> json_League \<Rightarrow> js_thrown + bool" where
  "search_callback toLowerCase term league =
     (case string_method Optional (json_strLeague league)
             (\<lambda>s. str_includes (toLowerCase s) term) of
        Inl e \<Rightarrow> Inl e
      | Inr a \<Rightarrow>
          if truthy_bool a then Inr True
          else
            (case string_method Optional (json_strLeagueAlternate league)
                    (\<lambda>s. str_includes (toLowerCase s) term) of
               Inl e \<Rightarrow> Inl e
             | Inr b \<Rightarrow> Inr (truthy_bool b)))"

text \<open>The callback of the sport filter: \<open>league.strSport === selectedSport.value\<close>.\<close>

definition sport_callback :: "js_string option \<Rightarrow> json_League \<Rightarrow> js_thrown + bool" where
  "sport_callback sport league = Inr (json_strSport league = value_of sport)"

text \<open>
  The body of the computed view. The type \<open>League\<close> is erased at run time, so the same code
  runs on the leagues of the store and on league objects with any values in their fields;
  \<open>view\<close> gives the run-time object of a league.
\<close>

definition filter_leagues ::
    "(js_string \<Rightarrow> js_string) \<Rightarrow> ('l \<Rightarrow> json_League) \<Rightarrow> 'l list \<Rightarrow> js_string
       \<Rightarrow> js_string option \<Rightarrow> js_thrown + 'l list" where
  "filter_leagues toLowerCase view ls searchTerm_value selectedSport_value =
     (case (if truthy (Some (trim searchTerm_value))
            then array_filter
                   (\<lambda>league. search_callback toLowerCase (toLowerCase searchTerm_value)
                                (view league))
                   ls
            else Inr ls) of
        Inl e \<Rightarrow> Inl e
      | Inr filtered \<Rightarrow>
          if truthy selectedSport_value
          then array_filter (\<lambda>league. sport_callback selectedSport_value (view league))
                 filtered
          else Inr filtered)"

definition filteredLeagues ::
    "(js_string \<Rightarrow> js_string) \<Rightarrow> store \<Rightarrow> js_thrown + League list" where
  "filteredLeagues toLowerCase st =
     filter_leagues toLowerCase as_json (leagues st) (searchTerm st) (selectedSport st)"

subsection \<open>Action: fetchLeagues\<close>

definition rate_limit_toast :: "js_string \<Rightarrow> toast" where
  "rate_limit_toast text =
     \<lparr>title = js ''Rate limit exceeded'', description = text, color = js ''warning''\<rparr>"

text \<open>The part of the \<open>catch\<close> block that both actions have: log the error, and raise a
  toast when the message mentions 429.\<close>

definition report_error ::
    "js_string \<Rightarrow> js_string \<Rightarrow> js_thrown \<Rightarrow> js_string \<Rightarrow> store \<Rightarrow> store" where
  "report_error label errorMessage err text st =
     (let st1 = st\<lparr>console := console st @ [(label, err)]\<rparr>
      in if str_includes errorMessage (js ''429'')
         then st1\<lparr>toasts := toasts st1 @ [rate_limit_toast text]\<rparr>
         else st1)"

text \<open>The \<open>try\<close> block: the awaited call, then the assignment to \<open>leagues\<close>.\<close>

definition fetchLeagues_try ::
    "LeaguesResponse option promise_outcome \<Rightarrow> store \<Rightarrow> js_thrown + store" where
  "fetchLeagues_try outcome st =
     (case outcome of
        Rejects err \<Rightarrow> Inl err
      | Resolves response \<Rightarrow>
          (case access Optional response response_leagues of
             Inl e \<Rightarrow> Inl e
           | Inr (Some (Some ls)) \<Rightarrow> Inr (st\<lparr>leagues := ls\<rparr>)
           | Inr _ \<Rightarrow> Inr (st\<lparr>leagues := []\<rparr>)))"

definition fetchLeagues ::
    "LeaguesResponse option promise_outcome \<Rightarrow> store \<Rightarrow> (js_thrown + unit) \<times> store" where
  "fetchLeagues outcome st =
     (let st1 = st\<lparr>loading := True, error := None\<rparr>;
          st2 = st1\<lparr>requests := requests st1 @ [(js ''all_leagues.php'', [])]\<rparr>;
          st3 =
            (case fetchLeagues_try outcome st2 of
               Inr st' \<Rightarrow> st'
             | Inl err \<Rightarrow>
                 (let errorMessage = message_or err (js ''Failed to fetch leagues'')
                  in report_error (js ''Error fetching leagues:'') errorMessage err
                       (js ''Please wait a moment before trying again'')
                       (st2\<lparr>error := Some errorMessage\<rparr>)))
      in (Inr (), st3\<lparr>loading := False\<rparr>))"

subsection \<open>Action: fetchBadge\<close>

definition badge_request :: "js_string \<Rightarrow> request" where
  "badge_request leagueId =
     (js ''search_all_seasons.php'', [(js ''badge'', JNumber 1), (js ''id'', JString leagueId)])"

text \<open>The \<open>try\<close> block: the awaited call, the choice of the last season, the write to the
  cache.\<close>

definition fetchBadge_try ::
    "(js_string \<Rightarrow> SeasonsWithBadgeResponse option promise_outcome) \<Rightarrow> js_string \<Rightarrow> store
       \<Rightarrow> js_thrown + js_value \<times> store" where
  "fetchBadge_try api leagueId st =
     (case api leagueId of
        Rejects err \<Rightarrow> Inl err
      | Resolves response \<Rightarrow>
          (case access Optional response seasons of
             Inl e \<Rightarrow> Inl e
           | Inr (Some (Some ss)) \<Rightarrow>
               if length ss > 0
               then (let latestSeason = ss ! (length ss - 1)
                     in if truthy (strBadge latestSeason)
                        then (case strBadge latestSeason of
                                Some badgeUrl \<Rightarrow>
                                  Inr (JString badgeUrl,
                                       st\<lparr>badgeCache := (badgeCache st)(leagueId \<mapsto> badgeUrl)\<rparr>)
                              | None \<Rightarrow> Inr (JNull, st))
                        else Inr (JNull, st))
               else Inr (JNull, st)
           | Inr _ \<Rightarrow> Inr (JNull, st)))"

definition fetchBadge ::
    "(js_string \<Rightarrow> SeasonsWithBadgeResponse option promise_outcome) \<Rightarrow> js_string \<Rightarrow> store
       \<Rightarrow> (js_thrown + js_value) \<times> store" where
  "fetchBadge api leagueId st =
     (if truthy_value (get_property (badgeCache st) leagueId)
      then (Inr (get_property (badgeCache st) leagueId), st)
      else
        (let st1 = st\<lparr>requests := requests st @ [badge_request leagueId]\<rparr>
         in case fetchBadge_try api leagueId st1 of
              Inr (result, st') \<Rightarrow> (Inr result, st')
            | Inl err \<Rightarrow>
                (let errorMessage = message_or err (js ''Failed to fetch badge'')
                 in (Inl (new_Error errorMessage),
                     report_error (js ''Error fetching badge:'') errorMessage err
                       (js ''Please wait before loading more badges'') st1))))"

subsection \<open>Specification-level predicates\<close>

text \<open>A case-insensitive substring match of a term on an optional field: both sides are
  lower-cased, and a missing field matches nothing.\<close>

definition ci_substring ::
    "(js_string \<Rightarrow> js_string) \<Rightarrow> js_string \<Rightarrow> js_string option \<Rightarrow> bool" where
  "ci_substring toLowerCase t field =
     (case field of
        None \<Rightarrow> False
      | Some s \<Rightarrow> sublist (toLowerCase t) (toLowerCase s))"

text \<open>The membership condition as the specification words it: the sport filter is off
  only for \<open>null\<close>, and the term is compared after trimming.\<close>

definition spec_league_matches ::
    "(js_string \<Rightarrow> js_string) \<Rightarrow> js_string \<Rightarrow> js_string option \<Rightarrow> League \<Rightarrow> bool" where
  "spec_league_matches toLowerCase t s L \<longleftrightarrow>
     (s = None \<or> strSport L = s) \<and>
     (trim t = [] \<or> ci_substring toLowerCase (trim t) (strLeague L)
        \<or> ci_substring toLowerCase (trim t) (strLeagueAlternate L))"

text \<open>The membership condition of the code: the sport filter is off for \<open>null\<close> and for the
  empty string, and the term is compared as typed (trimmed only to decide whether to
  search at all).\<close>

definition league_matches ::
    "(js_string \<Rightarrow> js_string) \<Rightarrow> js_string \<Rightarrow> js_string option \<Rightarrow> League \<Rightarrow> bool" where
  "league_matches toLowerCase t s L \<longleftrightarrow>
     (s = None \<or> s = Some [] \<or> strSport L = s) \<and>
     (trim t = [] \<or> ci_substring toLowerCase t (strLeague L)
        \<or> ci_substring toLowerCase t (strLeagueAlternate L))"

text \<open>The \<open>forEach\<close> callback of \<open>availableSports\<close> as a pure function on the set built so
  far.\<close>

definition add_sport :: "League \<Rightarrow> js_string list \<Rightarrow> js_string list" where
  "add_sport L sports =
     (case strSport L of
        Some s \<Rightarrow> if s \<noteq> [] then set_add s sports else sports
      | None \<Rightarrow> sports)"

subsection \<open>Concrete stores and collaborators\<close>

text \<open>The store as \<open>defineStore\<close> creates it, with an empty badge cache.\<close>

definition initial_store :: store where
  "initial_store =
     \<lparr>leagues = [], loading = False, error = None, searchTerm = [], selectedSport = None,
      badgeCache = Map.empty, requests = [], console = [], toasts = []\<rparr>"

definition league_epl :: League where
  "league_epl =
     \<lparr>idLeague = js ''4328'', strLeague = Some (js ''English Premier League''),
      strSport = Some (js ''Soccer''), strLeagueAlternate = Some (js ''EPL'')\<rparr>"

definition league_nba :: League where
  "league_nba =
     \<lparr>idLeague = js ''4387'', strLeague = Some (js ''NBA''),
      strSport = Some (js ''Basketball''), strLeagueAlternate = None\<rparr>"

definition league_blank :: League where
  "league_blank =
     \<lparr>idLeague = js ''0'', strLeague = None, strSport = None, strLeagueAlternate = None\<rparr>"

definition loaded_store :: store where
  "loaded_store = initial_store\<lparr>leagues := [league_epl, league_nba, league_blank]\<rparr>"

text \<open>A league object whose name is the number 5, which the declared type excludes and the
  unchecked cast lets through.\<close>

definition league_numeric_name :: json_League where
  "league_numeric_name =
     \<lparr>json_idLeague = JString (js ''9''), json_strLeague = JNumber 5,
      json_strSport = JString (js ''Soccer''), json_strLeagueAlternate = JNull\<rparr>"

definition badge_url :: js_string where
  "badge_url = js ''https://r2.thesportsdb.com/images/media/league/badge/epl.png''"




definition rate_limited :: js_thrown where
  "rate_limited = Error_object ''FetchError'' (js ''429 Too Many Requests'')"




definition api_rejecting ::
    "js_string \<Rightarrow> SeasonsWithBadgeResponse option promise_outcome" where
  "api_rejecting leagueId = Rejects rate_limited"

text \<open>A store whose cache holds the badge of league 4328, one whose cache holds the
  empty string for it, and one whose cache holds the empty string under the key
  \<open>constructor\<close>.\<close>

definition cached_store :: store where
  "cached_store = initial_store\<lparr>badgeCache := [js ''4328'' \<mapsto> badge_url]\<rparr>"



section \<open>Properties of the computed views\<close>

subsection \<open>Auxiliary facts\<close>

lemma str_includes_sublist: "str_includes s t \<longleftrightarrow> sublist t s"
  by (induction s) (auto simp: sublist_Cons_right)

lemma not_truthy_iff: "\<not> truthy v \<longleftrightarrow> v = None \<or> v = Some []"
  by (cases v) auto

lemma array_filter_total: "array_filter (\<lambda>x. Inr (p x)) xs = Inr (filter p xs)"
  by (induction xs) auto

lemma array_forEach_total: "array_forEach (\<lambda>x s. Inr (f x s)) xs s = Inr (fold f xs s)"
  by (induction xs arbitrary: s) auto

text \<open>On a league of the declared type the search callback never throws.\<close>

lemma search_callback_eq:
  "(\<lambda>league. search_callback toLowerCase (toLowerCase t) (as_json league)) =
     (\<lambda>L. Inr (ci_substring toLowerCase t (strLeague L)
               \<or> ci_substring toLowerCase t (strLeagueAlternate L)))"
  by (rule ext)
    (auto simp: search_callback_def as_json_def ci_substring_def str_includes_sublist
          split: option.splits)

lemma value_of_eq_iff: "value_of a = value_of b \<longleftrightarrow> a = b"
  by (cases a; cases b) auto

lemma sport_callback_eq:
  "(\<lambda>league. sport_callback s (as_json league)) = (\<lambda>L. Inr (strSport L = s))"
  by (rule ext) (simp add: sport_callback_def as_json_def value_of_eq_iff)

text \<open>The two filters never throw, and compose to one filter.\<close>

lemma filteredLeagues_eq:
  "filteredLeagues toLowerCase st =
     Inr (filter (\<lambda>L. \<not> truthy (selectedSport st) \<or> strSport L = selectedSport st)
            (filter (\<lambda>L. trim (searchTerm st) = []
                         \<or> ci_substring toLowerCase (searchTerm st) (strLeague L)
                         \<or> ci_substring toLowerCase (searchTerm st) (strLeagueAlternate L))
               (leagues st)))"
  by (simp add: filteredLeagues_def filter_leagues_def search_callback_eq sport_callback_eq
        array_filter_total)

lemma filteredLeagues_filter:
  "filteredLeagues toLowerCase st =
     Inr (filter (league_matches toLowerCase (searchTerm st) (selectedSport st)) (leagues st))"
  unfolding filteredLeagues_eq filter_filter league_matches_def not_truthy_iff
  by (rule arg_cong [where f = Inr], rule filter_cong) auto

lemma sports_callback_eq:
  "(\<lambda>league sports.
       if truthy (strSport league)
       then (case strSport league of
               Some s \<Rightarrow> Inr (set_add s sports)
             | None \<Rightarrow> Inr sports)
       else Inr sports) = (\<lambda>L s. Inr (add_sport L s))"
  by (intro ext) (auto simp: add_sport_def split: option.splits)

lemma availableSports_eq:
  "availableSports st = Inr (array_sort (fold add_sport (leagues st) []))"
  by (simp add: availableSports_def sports_callback_eq array_forEach_total)

lemma set_fold_add_sport:
  "set (fold add_sport ls acc) =
     set acc \<union> {s. s \<noteq> [] \<and> (\<exists>L \<in> set ls. strSport L = Some s)}"
  by (induction ls arbitrary: acc) (auto simp: add_sport_def set_add_def split: option.splits)

lemma distinct_fold_add_sport: "distinct acc \<Longrightarrow> distinct (fold add_sport ls acc)"
  by (induction ls arbitrary: acc) (auto simp: add_sport_def set_add_def split: option.splits)

lemmas league_defs =
  initial_store_def loaded_store_def league_epl_def league_nba_def league_blank_def

lemmas string_defs =
  js_def toLowerCase_ascii_def trim_def is_white_space_def ci_substring_def
  sublist_Cons_right

subsection \<open>filteredLeagues: membership\<close>

text \<open>
  C1 (as the code has it). A league \<open>L\<close> appears in \<open>filteredLeagues\<close> iff it is one of
  \<open>leagues\<close>, the sport filter \<open>s\<close> is \<open>null\<close> or the empty string or equals the sport of
  \<open>L\<close>, and the search term \<open>t\<close> is blank after trimming or, lower-cased but not trimmed,
  is a substring of the lower-cased name or alternate name of \<open>L\<close>. A league with no
  alternate name is matched on its name only. The result is exactly the list of the
  matching leagues, in the order of \<open>leagues\<close>. This holds whatever the case mapping is.
\<close>

theorem filteredLeagues_characterised:
  "\<exists>fs. filteredLeagues toLowerCase st = Inr fs
     \<and> fs = filter (league_matches toLowerCase (searchTerm st) (selectedSport st)) (leagues st)
     \<and> (\<forall>L. L \<in> set fs \<longleftrightarrow>
            L \<in> set (leagues st)
            \<and> league_matches toLowerCase (searchTerm st) (selectedSport st) L)
     \<and> (\<forall>L. strLeagueAlternate L = None \<longrightarrow>
           (L \<in> set fs \<longleftrightarrow>
              L \<in> set (leagues st)
              \<and> (selectedSport st = None \<or> selectedSport st = Some []
                   \<or> strSport L = selectedSport st)
              \<and> (trim (searchTerm st) = []
                   \<or> ci_substring toLowerCase (searchTerm st) (strLeague L))))"
  by (auto simp: filteredLeagues_filter league_matches_def ci_substring_def)

text \<open>Searching for \<open>epl\<close> among three leagues finds the one whose alternate name is
  \<open>EPL\<close>; the league with no alternate name is judged on its name alone.\<close>

theorem filteredLeagues_characterised_witness:
  "filteredLeagues toLowerCase_ascii (loaded_store\<lparr>searchTerm := js ''epl''\<rparr>)
     = Inr [league_epl]
   \<and> strLeagueAlternate league_nba = None
   \<and> league_nba \<notin> set [league_epl]"
  using filteredLeagues_characterised
          [of toLowerCase_ascii "loaded_store\<lparr>searchTerm := js ''epl''\<rparr>"]
  by (simp add: league_matches_def league_defs string_defs)

text \<open>
  The condition as the specification words it fails in two places. With the term
  \<open>" epl"\<close> the trimmed term \<open>epl\<close> is a substring of the alternate name \<open>EPL\<close>, yet the
  code compares the untrimmed term and finds no league. With the sport filter set to the
  empty string no league has that sport, yet the code applies no sport filter and returns
  every league. All strings here are ASCII, where \<open>toLowerCase_ascii\<close> is the built-in.
\<close>

theorem filteredLeagues_spec_counterexample:
  "spec_league_matches toLowerCase_ascii (js '' epl'') None league_epl
   \<and> filteredLeagues toLowerCase_ascii (loaded_store\<lparr>searchTerm := js '' epl''\<rparr>) = Inr []
   \<and> \<not> spec_league_matches toLowerCase_ascii [] (Some []) league_epl
   \<and> filteredLeagues toLowerCase_ascii (loaded_store\<lparr>selectedSport := Some []\<rparr>) =
       Inr [league_epl, league_nba, league_blank]"
  by (simp add: filteredLeagues_def filter_leagues_def search_callback_def sport_callback_def
        as_json_def spec_league_matches_def league_defs string_defs)

subsection \<open>filteredLeagues: order\<close>

text \<open>
  C6. For every league list, search term and sport filter, \<open>filteredLeagues\<close> is a
  subsequence of \<open>leagues\<close>: each of its elements occurs in \<open>leagues\<close>, and they come in
  the same relative order.
\<close>

theorem filteredLeagues_subseq:
  "\<exists>fs. filteredLeagues toLowerCase st = Inr fs
     \<and> subseq fs (leagues st) \<and> set fs \<subseteq> set (leagues st)"
  by (simp add: filteredLeagues_filter)

theorem filteredLeagues_subseq_witness:
  "filteredLeagues toLowerCase_ascii (loaded_store\<lparr>selectedSport := Some (js ''Basketball'')\<rparr>)
     = Inr [league_nba]
   \<and> subseq [league_nba] [league_epl, league_nba, league_blank]"
  using filteredLeagues_subseq
          [of toLowerCase_ascii "loaded_store\<lparr>selectedSport := Some (js ''Basketball'')\<rparr>"]
  by (simp add: filteredLeagues_filter league_matches_def league_defs string_defs)

subsection \<open>availableSports\<close>

text \<open>
  C7. For every league list, \<open>availableSports\<close> returns exactly the non-empty sport values
  that occur among the leagues, each once, in ascending lexicographic order, and it
  depends on nothing but \<open>leagues\<close>.
\<close>

theorem availableSports_sorted_distinct:
  "\<exists>sports. availableSports st = Inr sports
     \<and> set sports = {s. s \<noteq> [] \<and> (\<exists>L \<in> set (leagues st). strSport L = Some s)}
     \<and> distinct sports
     \<and> sorted sports
     \<and> (\<forall>st'. leagues st' = leagues st \<longrightarrow> availableSports st' = availableSports st)"
  by (simp add: availableSports_eq array_sort_def set_fold_add_sport distinct_fold_add_sport)

text \<open>Two soccer leagues, one basketball league and a league with no sport give two
  sports, basketball first; the search term does not matter.\<close>

theorem availableSports_sorted_distinct_witness:
  "availableSports (loaded_store\<lparr>leagues := [league_epl, league_nba, league_blank, league_epl]\<rparr>)
     = Inr [js ''Basketball'', js ''Soccer'']
   \<and> leagues (loaded_store\<lparr>searchTerm := js ''nba''\<rparr>) = leagues loaded_store
   \<and> availableSports (loaded_store\<lparr>searchTerm := js ''nba''\<rparr>) = availableSports loaded_store"
proof -
  have same: "leagues (loaded_store\<lparr>searchTerm := js ''nba''\<rparr>) = leagues loaded_store"
    by simp
  have "availableSports (loaded_store\<lparr>searchTerm := js ''nba''\<rparr>)
          = availableSports loaded_store"
    using availableSports_sorted_distinct [of loaded_store] same by blast
  moreover have
    "availableSports (loaded_store\<lparr>leagues := [league_epl, league_nba, league_blank, league_epl]\<rparr>)
       = Inr [js ''Basketball'', js ''Soccer'']"
    by (simp add: availableSports_eq array_sort_def add_sport_def set_add_def league_defs
          js_def)
  ultimately show ?thesis using same by simp
qed

subsection \<open>No exception from the catalog\<close>

text \<open>
  C8 (as the code has it). For every league list (empty or not) whose leagues have a
  string or nothing in each of name, alternate name and sport, every search term and every
  sport filter, \<open>availableSports\<close> and \<open>filteredLeagues\<close> complete normally, and so does
  \<open>fetchLeagues\<close> for every outcome of the request. Missing data degrades to "no match": a
  league with neither name nor alternate name is in no result of a non-blank search, a
  league with no sport is in no result of an active sport filter, and an empty list gives
  empty results.
\<close>

theorem catalog_raises_no_exception:
  "(\<exists>sports. availableSports st = Inr sports)
   \<and> (\<exists>fs. filteredLeagues toLowerCase st = Inr fs
         \<and> (\<forall>L. trim (searchTerm st) \<noteq> [] \<and> strLeague L = None
                \<and> strLeagueAlternate L = None \<longrightarrow> L \<notin> set fs)
         \<and> (\<forall>L. truthy (selectedSport st) \<and> strSport L = None \<longrightarrow> L \<notin> set fs))
   \<and> (leagues st = [] \<longrightarrow>
         availableSports st = Inr [] \<and> filteredLeagues toLowerCase st = Inr [])
   \<and> fst (fetchLeagues outcome st) = Inr ()"
proof (intro conjI)
  show "\<exists>sports. availableSports st = Inr sports"
    by (simp add: availableSports_eq)
  show "\<exists>fs. filteredLeagues toLowerCase st = Inr fs
         \<and> (\<forall>L. trim (searchTerm st) \<noteq> [] \<and> strLeague L = None
                \<and> strLeagueAlternate L = None \<longrightarrow> L \<notin> set fs)
         \<and> (\<forall>L. truthy (selectedSport st) \<and> strSport L = None \<longrightarrow> L \<notin> set fs)"
    by (cases "selectedSport st")
      (auto simp: filteredLeagues_filter league_matches_def ci_substring_def)
  show "leagues st = [] \<longrightarrow>
          availableSports st = Inr [] \<and> filteredLeagues toLowerCase st = Inr []"
    by (simp add: availableSports_eq filteredLeagues_filter array_sort_def)
  show "fst (fetchLeagues outcome st) = Inr ()"
    by (simp add: fetchLeagues_def Let_def)
qed

text \<open>A league with every field missing, a search for \<open>a\<close> and then a filter on soccer:
  both views return, and the blank league is in neither result.\<close>

theorem catalog_raises_no_exception_witness:
  "trim (js ''a'') \<noteq> [] \<and> strLeague league_blank = None
   \<and> strLeagueAlternate league_blank = None
   \<and> filteredLeagues toLowerCase_ascii (loaded_store\<lparr>searchTerm := js ''a''\<rparr>)
       = Inr [league_epl, league_nba]
   \<and> truthy (Some (js ''Soccer'')) \<and> strSport league_blank = None
   \<and> filteredLeagues toLowerCase_ascii (loaded_store\<lparr>selectedSport := Some (js ''Soccer'')\<rparr>)
       = Inr [league_epl]
   \<and> leagues initial_store = []
   \<and> availableSports initial_store = Inr []
   \<and> filteredLeagues toLowerCase_ascii initial_store = Inr []"
  using catalog_raises_no_exception
          [of "loaded_store\<lparr>searchTerm := js ''a''\<rparr>" toLowerCase_ascii]
    catalog_raises_no_exception
          [of "loaded_store\<lparr>selectedSport := Some (js ''Soccer'')\<rparr>" toLowerCase_ascii]
    catalog_raises_no_exception [of initial_store toLowerCase_ascii]
  by (simp add: filteredLeagues_filter league_matches_def league_defs string_defs)

text \<open>
  With a field that is not a string the computed view throws. The league list holds one
  league object whose name is the number 5; the search term is \<open>a\<close>. The optional chain
  guards against \<open>null\<close> and \<open>undefined\<close> only, so \<open>toLowerCase\<close> is looked up on the number, is
  \<open>undefined\<close>, and the call is a \<open>TypeError\<close> that leaves \<open>filter\<close> and the computed view.
\<close>

theorem catalog_malformed_field_counterexample:
  "json_strLeague league_numeric_name = JNumber 5
   \<and> filter_leagues toLowerCase_ascii id [league_numeric_name] (js ''a'') None
       = Inl (Error_object ''TypeError'' (js ''is not a function''))"
  by (simp add: filter_leagues_def search_callback_def league_numeric_name_def
        not_a_function_def string_defs)

section \<open>Properties of the actions\<close>

subsection \<open>Auxiliary facts\<close>

lemma report_error_keeps [simp]:
  "badgeCache (report_error l m e t st) = badgeCache st"
  "requests (report_error l m e t st) = requests st"
  "leagues (report_error l m e t st) = leagues st"
  "error (report_error l m e t st) = error st"
  "loading (report_error l m e t st) = loading st"
  by (simp_all add: report_error_def Let_def)

lemma fetchLeagues_try_rejects: "fetchLeagues_try (Rejects err) st = Inl err"
  by (simp add: fetchLeagues_try_def)

text \<open>The read of the cache is falsy exactly when the own entry is the empty string, or
  there is no own entry and the key names no member of \<open>Object.prototype\<close>.\<close>

lemma cache_miss_iff:
  "\<not> truthy_value (get_property cache key) \<longleftrightarrow>
     cache key = Some [] \<or> (cache key = None \<and> key \<notin> set object_prototype_members)"
  by (auto simp: get_property_def split: option.splits)

lemma get_property_own: "cache key = Some v \<Longrightarrow> get_property cache key = JString v"
  by (simp add: get_property_def)

lemma numeric_id_not_inherited: "js ''4328'' \<notin> set object_prototype_members"
  by (simp add: object_prototype_members_def js_def)


lemma fetchBadge_hit:
  "badgeCache st leagueId = Some url \<Longrightarrow> url \<noteq> [] \<Longrightarrow>
     fetchBadge api leagueId st = (Inr (JString url), st)"
  by (simp add: fetchBadge_def get_property_own)




lemma fetchBadge_try_rejects:
  "api leagueId = Rejects err \<Longrightarrow> fetchBadge_try api leagueId st = Inl err"
  by (simp add: fetchBadge_try_def)



text \<open>The action itself never stores the empty string: a cache that starts without empty
  values, such as the initial \<open>{}\<close>, stays so.\<close>

lemma fetchBadge_cache_values_nonempty:
  assumes "\<forall>k v. badgeCache st k = Some v \<longrightarrow> v \<noteq> []"
  shows "\<forall>k v. badgeCache (snd (fetchBadge api leagueId st)) k = Some v \<longrightarrow> v \<noteq> []"
  using assms
  by (auto simp: fetchBadge_def fetchBadge_try_def Let_def
           split: promise_outcome.splits option.splits sum.splits if_splits)

subsection \<open>fetchBadge: cache hit\<close>

text \<open>
  C4. For every league id whose cache entry holds a badge URL (a non-empty string; the
  empty string counts as absent, see C10), \<open>fetchBadge\<close> returns that URL at once, whatever
  the HTTP collaborator would answer: the store, and with it the log of requests, is
  unchanged, so no request is made.
\<close>

theorem fetchBadge_cache_hit:
  assumes "badgeCache st leagueId = Some url" and "url \<noteq> []"
  shows "fetchBadge api leagueId st = (Inr (JString url), st)
         \<and> requests (snd (fetchBadge api leagueId st)) = requests st"
  using assms by (simp add: fetchBadge_hit)

theorem fetchBadge_cache_hit_witness:
  "badgeCache cached_store (js ''4328'') = Some badge_url \<and> badge_url \<noteq> []
   \<and> fetchBadge api_rejecting (js ''4328'') cached_store
       = (Inr (JString badge_url), cached_store)
   \<and> requests (snd (fetchBadge api_rejecting (js ''4328'') cached_store)) = []"
proof -
  have hit: "badgeCache cached_store (js ''4328'') = Some badge_url"
    by (simp add: cached_store_def)
  have url: "badge_url \<noteq> []"
    by (simp add: badge_url_def js_def)
  have "requests cached_store = []"
    by (simp add: cached_store_def initial_store_def)
  with fetchBadge_cache_hit [OF hit url, of api_rejecting] hit url show ?thesis
    by simp
qed

subsection \<open>fetchBadge: miss, badge found\<close>




subsection \<open>fetchBadge: miss, no badge\<close>




subsection \<open>fetchBadge: the request fails\<close>

text \<open>
  C2 (as the code has it). For every league id whose read from the cache is falsy, so that
  the request is made, when the request rejects with \<open>err\<close>, \<open>fetchBadge\<close> rejects with a new
  \<open>Error\<close> whose message is the message of \<open>err\<close> if \<open>err\<close> is an \<open>Error\<close>, and
  \<open>Failed to fetch badge\<close> otherwise; it has issued exactly one request (no retry) and the
  cache is as it was.
\<close>

theorem fetchBadge_rejection:
  assumes miss: "\<not> truthy_value (get_property (badgeCache st) leagueId)"
    and fetch: "api leagueId = Rejects err"
  shows "\<exists>st'. fetchBadge api leagueId st =
                 (Inl (Error_object ''Error'' (message_or err (js ''Failed to fetch badge''))),
                  st')
           \<and> badgeCache st' = badgeCache st
           \<and> requests st' = requests st @ [badge_request leagueId]"
  using miss fetchBadge_try_rejects [where api = api and leagueId = leagueId, OF fetch]
  by (simp add: fetchBadge_def new_Error_def Let_def)

theorem fetchBadge_rejection_witness:
  "\<not> truthy_value (get_property (badgeCache initial_store) (js ''4328''))
   \<and> api_rejecting (js ''4328'') = Rejects rate_limited
   \<and> fst (fetchBadge api_rejecting (js ''4328'') initial_store)
       = Inl (Error_object ''Error'' (js ''429 Too Many Requests''))
   \<and> badgeCache (snd (fetchBadge api_rejecting (js ''4328'') initial_store)) (js ''4328'')
       = None
   \<and> requests (snd (fetchBadge api_rejecting (js ''4328'') initial_store))
       = [badge_request (js ''4328'')]"
proof -
  have miss: "\<not> truthy_value (get_property (badgeCache initial_store) (js ''4328''))"
    using numeric_id_not_inherited by (simp add: cache_miss_iff initial_store_def)
  have fetch: "api_rejecting (js ''4328'') = Rejects rate_limited"
    by (simp add: api_rejecting_def)
  have "requests initial_store = []" "badgeCache initial_store (js ''4328'') = None"
    "message_or rate_limited (js ''Failed to fetch badge'') = js ''429 Too Many Requests''"
    by (simp_all add: initial_store_def rate_limited_def)
  with fetchBadge_rejection
         [where api = api_rejecting and leagueId = "js ''4328''" and st = initial_store,
          OF miss fetch]
    miss fetch
  show ?thesis by auto
qed

text \<open>
  The rejection is not passed on as it is. When the request fails with a \<open>FetchError\<close>
  saying \<open>429 Too Many Requests\<close>, the caller receives a plain \<open>Error\<close> with that message,
  not the \<open>FetchError\<close>.
\<close>

theorem fetchBadge_rejection_counterexample:
  "api_rejecting (js ''4328'') = Rejects rate_limited
   \<and> fst (fetchBadge api_rejecting (js ''4328'') initial_store)
       = Inl (Error_object ''Error'' (js ''429 Too Many Requests''))
   \<and> fst (fetchBadge api_rejecting (js ''4328'') initial_store) \<noteq> Inl rate_limited"
  using numeric_id_not_inherited
  by (simp add: fetchBadge_def fetchBadge_try_def get_property_def api_rejecting_def
        rate_limited_def initial_store_def new_Error_def Let_def)

subsection \<open>fetchBadge: the empty string\<close>




subsection \<open>fetchLeagues\<close>

text \<open>
  C9. For every outcome of the request, \<open>fetchLeagues\<close> completes normally and leaves
  \<open>loading\<close> false. When the request rejects with \<open>err\<close>, the \<open>error\<close> field holds the message
  of \<open>err\<close> (or \<open>Failed to fetch leagues\<close> when \<open>err\<close> is not an \<open>Error\<close>) and \<open>leagues\<close> is what
  it was before the call.
\<close>

theorem fetchLeagues_never_rejects:
  "fst (fetchLeagues outcome st) = Inr ()
   \<and> loading (snd (fetchLeagues outcome st)) = False
   \<and> (\<forall>err. outcome = Rejects err \<longrightarrow>
         error (snd (fetchLeagues outcome st))
           = Some (message_or err (js ''Failed to fetch leagues''))
         \<and> leagues (snd (fetchLeagues outcome st)) = leagues st)"
  by (simp add: fetchLeagues_def fetchLeagues_try_rejects Let_def)

theorem fetchLeagues_never_rejects_witness:
  "fst (fetchLeagues (Rejects rate_limited) loaded_store) = Inr ()
   \<and> loading (snd (fetchLeagues (Rejects rate_limited) loaded_store)) = False
   \<and> error (snd (fetchLeagues (Rejects rate_limited) loaded_store))
       = Some (js ''429 Too Many Requests'')
   \<and> leagues (snd (fetchLeagues (Rejects rate_limited) loaded_store))
       = [league_epl, league_nba, league_blank]"
  using fetchLeagues_never_rejects [of "Rejects rate_limited" loaded_store]
  by (simp add: rate_limited_def loaded_store_def initial_store_def)

end
